theory Spec2Isabelle
  imports Complex_Main "HOL-Library.Monad_Syntax"
begin

section \<open>Lines, characters and the regular expressions of tas.py\<close>

text \<open>
  A log file is the list of the lines that successive \<^verbatim>\<open>f.readline()\<close> calls return, each
  with its line terminator; the end of the list is the end of the file (\<^verbatim>\<open>not l\<close>).

  Every regular expression of the source is anchored at the start of the line and is a
  sequence of literals and of character classes each followed by a character outside the
  class, so it matches in one way only. Each one is written as a matcher that returns the
  named groups the source reads. The sensor id is matched as literal text, which is what the
  f-string yields for an id without regular-expression operators.
\<close>

abbreviation TAB :: char where "TAB \<equiv> CHR 0x09"
abbreviation NL :: char where "NL \<equiv> CHR 0x0A"

definition digit :: "char \<Rightarrow> bool" where
  "digit c = (c \<in> set ''0123456789'')"

definition upper_or_digit :: "char \<Rightarrow> bool" where
  "upper_or_digit c = (c \<in> set ''ABCDEFGHIJKLMNOPQRSTUVWXYZ0123456789'')"

definition upper_or_underscore :: "char \<Rightarrow> bool" where
  "upper_or_underscore c = (c \<in> set ''ABCDEFGHIJKLMNOPQRSTUVWXYZ_'')"

text \<open>\<^verbatim>\<open>[class]+\<close>: the longest non-empty run of the class, and what follows it.\<close>

definition many1 :: "(char \<Rightarrow> bool) \<Rightarrow> string \<Rightarrow> (string \<times> string) option" where
  "many1 P s = (if takeWhile P s = [] then None else Some (takeWhile P s, dropWhile P s))"

text \<open>A literal: what follows it, when the text starts with it.\<close>

definition lit :: "string \<Rightarrow> string \<Rightarrow> string option" where
  "lit p s = (if take (length p) s = p then Some (drop (length p) s) else None)"

text \<open>\<^verbatim>\<open>\d+\.\d+\<close>: the matched text and what follows it.\<close>

definition decimal :: "string \<Rightarrow> (string \<times> string) option" where
  "decimal s = do {
     (ip, r) \<leftarrow> many1 digit s;
     r \<leftarrow> lit ''.'' r;
     (fp, r) \<leftarrow> many1 digit r;
     Some (ip @ ''.'' @ fp, r) }"

subsection \<open>Numbers\<close>

text \<open>
  \<^verbatim>\<open>int(s)\<close> on a run of decimal digits. Python's floats are modelled by the rationals they
  approximate: \<^verbatim>\<open>float(s)\<close> on a text \<^verbatim>\<open>\d+\.\d+\<close> is the number the text denotes, and
  \<^verbatim>\<open>round(x, 6)\<close> rounds to the nearest multiple of \<open>10\<^sup>-\<^sup>6\<close>, a tie going to the even
  one. A timestamp stays the epoch seconds that \<^verbatim>\<open>datetime.fromtimestamp\<close> is given; the
  conversion to local time, and the exception it raises for a date beyond the year 9999, are
  not modelled. Characters are those of ASCII, where \<^verbatim>\<open>\d\<close> is a digit from 0 to 9.
\<close>

definition digit_val :: "char \<Rightarrow> int" where
  "digit_val c = of_char c - 48"

definition int_of_digits :: "string \<Rightarrow> int" where
  "int_of_digits s = foldl (\<lambda>n c. 10 * n + digit_val c) 0 s"

definition float_of_decimal :: "string \<Rightarrow> rat" where
  "float_of_decimal s =
     (let ip = takeWhile digit s; fp = drop 1 (dropWhile digit s)
      in of_int (int_of_digits ip) + of_int (int_of_digits fp) / 10 ^ length fp)"

definition round6 :: "rat \<Rightarrow> rat" where
  "round6 x =
     (let y = x * 1000000; f = \<lfloor>y\<rfloor>; d = y - of_int f
      in of_int (if d < 1 / 2 then f else if 1 / 2 < d then f + 1
                 else if even f then f else f + 1) / 1000000)"

subsection \<open>The patterns of the three extractors\<close>

text \<open>
  \<^verbatim>\<open>^[A-Z0-9]+_{sensor_id}\t(?P<timestamp>\d+\.\d+)\tS\t0\t(?P<timer>\d+)\t(?P<count>\d+)\t\t\<close>,
  the \<^verbatim>\<open>pattern\<close> of \<^verbatim>\<open>speed\<close> and \<^verbatim>\<open>cg_speed\<close>; the groups are (timestamp, timer, count).
\<close>

definition speed_pattern :: "string \<Rightarrow> string \<Rightarrow> (string \<times> string \<times> string) option" where
  "speed_pattern sensor_id l = do {
     (_, r) \<leftarrow> many1 upper_or_digit l;
     r \<leftarrow> lit (''_'' @ sensor_id @ [TAB]) r;
     (ts, r) \<leftarrow> decimal r;
     r \<leftarrow> lit [TAB, CHR ''S'', TAB, CHR ''0'', TAB] r;
     (timer, r) \<leftarrow> many1 digit r;
     r \<leftarrow> lit [TAB] r;
     (cnt, r) \<leftarrow> many1 digit r;
     _ \<leftarrow> lit [TAB, TAB] r;
     Some (ts, timer, cnt) }"

text \<open>
  \<^verbatim>\<open>^SPEED\t[A-Z0-9]+_{sensor_id}\t(?P<timestamp>\d+\.\d+)\t(?P<speed>\d+\.\d+)\n\<close>,
  the \<^verbatim>\<open>next_pattern\<close> of \<^verbatim>\<open>speed\<close>; the groups are (timestamp, speed).
\<close>

definition speed_next_pattern :: "string \<Rightarrow> string \<Rightarrow> (string \<times> string) option" where
  "speed_next_pattern sensor_id l = do {
     r \<leftarrow> lit (''SPEED'' @ [TAB]) l;
     (_, r) \<leftarrow> many1 upper_or_digit r;
     r \<leftarrow> lit (''_'' @ sensor_id @ [TAB]) r;
     (ts, r) \<leftarrow> decimal r;
     r \<leftarrow> lit [TAB] r;
     (v, r) \<leftarrow> decimal r;
     _ \<leftarrow> lit [NL] r;
     Some (ts, v) }"

text \<open>
  \<^verbatim>\<open>^CG_SPEED_[A-Z0-9]+_{sensor_id}\t(?P<timestamp>\d+\.\d+)\t(?P<speed>\d+\.\d+)\n\<close>,
  the \<^verbatim>\<open>next_pattern\<close> of \<^verbatim>\<open>cg_speed\<close>.
\<close>

definition cg_next_pattern :: "string \<Rightarrow> string \<Rightarrow> (string \<times> string) option" where
  "cg_next_pattern sensor_id l = do {
     r \<leftarrow> lit ''CG_SPEED_'' l;
     (_, r) \<leftarrow> many1 upper_or_digit r;
     r \<leftarrow> lit (''_'' @ sensor_id @ [TAB]) r;
     (ts, r) \<leftarrow> decimal r;
     r \<leftarrow> lit [TAB] r;
     (v, r) \<leftarrow> decimal r;
     _ \<leftarrow> lit [NL] r;
     Some (ts, v) }"

text \<open>
  \<^verbatim>\<open>^[A-Z0-9]+_{sensor_id}\t(?P<timestamp>\d+\.\d+)\tS\t(?P<event_count>\d+)\t(?P<elapsed_time>\d+)\t(?P<torque_ticks>\d+)\t(?P<slope>\d+)\t\<close>,
  the \<^verbatim>\<open>pattern\<close> of \<^verbatim>\<open>power\<close>; the groups the source reads are (event_count, elapsed_time).
\<close>

definition power_pattern :: "string \<Rightarrow> string \<Rightarrow> (string \<times> string) option" where
  "power_pattern sensor_id l = do {
     (_, r) \<leftarrow> many1 upper_or_digit l;
     r \<leftarrow> lit (''_'' @ sensor_id @ [TAB]) r;
     (_, r) \<leftarrow> decimal r;
     r \<leftarrow> lit [TAB, CHR ''S'', TAB] r;
     (event_count, r) \<leftarrow> many1 digit r;
     r \<leftarrow> lit [TAB] r;
     (elapsed, r) \<leftarrow> many1 digit r;
     r \<leftarrow> lit [TAB] r;
     (_, r) \<leftarrow> many1 digit r;
     r \<leftarrow> lit [TAB] r;
     (_, r) \<leftarrow> many1 digit r;
     _ \<leftarrow> lit [TAB] r;
     Some (event_count, elapsed) }"

text \<open>
  \<^verbatim>\<open>^POWER\t[A-Z0-9]+_{sensor_id}\t(?P<timestamp>\d+\.\d+)\t(?P<power>\d+\.\d+)\n\<close>,
  the \<^verbatim>\<open>next_pattern\<close> of \<^verbatim>\<open>power\<close>.
\<close>

definition power_next_pattern :: "string \<Rightarrow> string \<Rightarrow> (string \<times> string) option" where
  "power_next_pattern sensor_id l = do {
     r \<leftarrow> lit (''POWER'' @ [TAB]) l;
     (_, r) \<leftarrow> many1 upper_or_digit r;
     r \<leftarrow> lit (''_'' @ sensor_id @ [TAB]) r;
     (ts, r) \<leftarrow> decimal r;
     r \<leftarrow> lit [TAB] r;
     (v, r) \<leftarrow> decimal r;
     _ \<leftarrow> lit [NL] r;
     Some (ts, v) }"

section \<open>Records, errors and generators\<close>

text \<open>
  The two named tuples of the source. The fields of \<^verbatim>\<open>SpeedSensorRecord\<close> are written
  \<open>s_\<dots>\<close> and those of \<^verbatim>\<open>PowerSensorRecord\<close> \<open>p_\<dots>\<close>.
\<close>

record SpeedSensorRecord =
  s_timestamp :: rat
  s_value :: rat
  s_elapsed_time :: rat
  s_count :: int
  s_circumference :: rat

record PowerSensorRecord =
  p_timestamp :: rat
  p_value :: rat
  p_event_count :: int
  p_elapsed_time :: rat

text \<open>The exceptions the code of the extractors can raise.\<close>

datatype error = KeyError | ValueError | IndexError | UnboundLocalError

text \<open>
  A run of a generator to its end: the records it yields, in order, and the exception that
  ended it, if one did.
\<close>

type_synonym 'r generator = "'r list \<times> error option"

definition yield :: "'r \<Rightarrow> 'r generator \<Rightarrow> 'r generator" where
  "yield r g = (r # fst g, snd g)"

definition raise :: "error \<Rightarrow> 'r generator" where
  "raise e = ([], Some e)"

subsection \<open>The inner loops\<close>

text \<open>
  The loop \<^verbatim>\<open># find data entry\<close> of \<^verbatim>\<open>speed\<close> and \<^verbatim>\<open>power\<close>: it reads lines until one
  matches \<^verbatim>\<open>next_pattern\<close> and assigns \<^verbatim>\<open>result\<close> there; at the end of the file it
  leaves \<^verbatim>\<open>result\<close> as it was. \<open>entry l\<close> is the record built from the line \<open>l\<close> when
  it matches. The value is \<^verbatim>\<open>result\<close> after the loop and the lines not yet read.
\<close>

fun find_entry :: "(string \<Rightarrow> 'r option) \<Rightarrow> 'r option \<Rightarrow> string list \<Rightarrow> 'r option \<times> string list" where
  "find_entry entry result [] = (result, [])"
| "find_entry entry result (l # ls) =
     (case entry l of
        None \<Rightarrow> find_entry entry result ls
      | Some r \<Rightarrow> (Some r, ls))"

text \<open>
  The loop \<^verbatim>\<open># seek next copy\<close>: it reads lines up to and including the first one that
  matches \<^verbatim>\<open>pattern\<close>, or to the end of the file.
\<close>

fun seek_next_copy :: "(string \<Rightarrow> bool) \<Rightarrow> string list \<Rightarrow> string list" where
  "seek_next_copy p [] = []"
| "seek_next_copy p (l # ls) = (if p l then ls else seek_next_copy p ls)"

text \<open>
  The loop \<^verbatim>\<open># find latest data entry\<close> of \<^verbatim>\<open>cg_speed\<close>: a line matching \<^verbatim>\<open>pattern\<close>
  ends it once \<^verbatim>\<open>result\<close> is set; every line matching \<^verbatim>\<open>next_pattern\<close> overwrites
  \<^verbatim>\<open>result\<close>.
\<close>

fun find_latest :: "(string \<Rightarrow> bool) \<Rightarrow> (string \<Rightarrow> 'r option) \<Rightarrow> 'r option \<Rightarrow> string list \<Rightarrow> 'r option \<times> string list" where
  "find_latest p entry result [] = (result, [])"
| "find_latest p entry result (l # ls) =
     (if result \<noteq> None \<and> p l then (result, ls)
      else (case entry l of
              None \<Rightarrow> find_latest p entry result ls
            | Some r \<Rightarrow> find_latest p entry (Some r) ls))"

lemma length_find_entry: "length (snd (find_entry entry result ls)) \<le> length ls"
  by (induction ls) (auto split: option.splits)

lemma length_seek_next_copy: "length (seek_next_copy p ls) \<le> length ls"
  by (induction ls) auto

lemma length_find_latest: "length (snd (find_latest p entry result ls)) \<le> length ls"
  by (induction ls arbitrary: result) (auto split: option.splits intro: le_SucI)

subsection \<open>speed\<close>

text \<open>
  The record \<^verbatim>\<open>speed\<close> builds from a line matching its \<^verbatim>\<open>next_pattern\<close>, with the
  \<^verbatim>\<open>meas_time\<close> and \<^verbatim>\<open>rev_count\<close> of the announcement. (The local \<^verbatim>\<open>speed\<close> of line 101
  is not read again.)
\<close>

definition speed_entry :: "string \<Rightarrow> rat \<Rightarrow> int \<Rightarrow> int \<Rightarrow> string \<Rightarrow> SpeedSensorRecord option" where
  "speed_entry sensor_id circumference meas_time rev_count l =
     (case speed_next_pattern sensor_id l of
        None \<Rightarrow> None
      | Some (ts, v) \<Rightarrow>
          Some \<lparr>s_timestamp = float_of_decimal ts, s_value = float_of_decimal v,
                s_elapsed_time = round6 (of_int meas_time / 1024),
                s_count = rev_count, s_circumference = circumference\<rparr>)"

definition speed_announce :: "string \<Rightarrow> string \<Rightarrow> bool" where
  "speed_announce sensor_id l = (speed_pattern sensor_id l \<noteq> None)"

text \<open>
  The outer loop of \<^verbatim>\<open>speed\<close>, from the lines not yet read and the local \<^verbatim>\<open>result\<close>
  (\<open>None\<close> while it is unbound). \<^verbatim>\<open>yield result\<close> reads \<^verbatim>\<open>result\<close> whether or not this
  round assigned it: unbound, it raises \<^verbatim>\<open>UnboundLocalError\<close>.
\<close>

function speed_loop :: "string \<Rightarrow> rat \<Rightarrow> SpeedSensorRecord option \<Rightarrow> string list \<Rightarrow> SpeedSensorRecord generator" where
  "speed_loop sensor_id circumference result [] = ([], None)"
| "speed_loop sensor_id circumference result (l # ls) =
     (case speed_pattern sensor_id l of
        None \<Rightarrow> speed_loop sensor_id circumference result ls
      | Some (ts, timer, cnt) \<Rightarrow>
          if int_of_digits timer = 0 then speed_loop sensor_id circumference result ls
          else
            (case find_entry (speed_entry sensor_id circumference (int_of_digits timer) (int_of_digits cnt)) result ls of
               (None, ls') \<Rightarrow> raise UnboundLocalError
             | (Some r, ls') \<Rightarrow>
                 yield r (speed_loop sensor_id circumference (Some r)
                            (seek_next_copy (speed_announce sensor_id) ls'))))"
  by pat_completeness auto
termination
proof (relation "measure (\<lambda>(sensor_id, circumference, result, ls). length ls)", goal_cases)
  case (4 sensor_id circumference result l ls x2 ts y timer cnt x2a ls' r)
  have "length (seek_next_copy (speed_announce sensor_id) ls') \<le> length ls'"
    by (rule length_seek_next_copy)
  moreover have "length ls' \<le> length ls"
    using length_find_entry [of "speed_entry sensor_id circumference (int_of_digits timer) (int_of_digits cnt)" result ls]
      4 by (metis snd_conv)
  ultimately show ?case by simp
qed auto

subsection \<open>power\<close>

text \<open>
  The record \<^verbatim>\<open>power\<close> builds from a line matching its \<^verbatim>\<open>next_pattern\<close>; \<open>elapsed_time\<close>
  is \<^verbatim>\<open>int(m.group('elapsed_time')) * 0.0005\<close>.
\<close>

definition power_entry :: "string \<Rightarrow> int \<Rightarrow> rat \<Rightarrow> string \<Rightarrow> PowerSensorRecord option" where
  "power_entry sensor_id event_count elapsed_time l =
     (case power_next_pattern sensor_id l of
        None \<Rightarrow> None
      | Some (ts, v) \<Rightarrow>
          Some \<lparr>p_timestamp = float_of_decimal ts, p_value = float_of_decimal v,
                p_event_count = event_count, p_elapsed_time = round6 elapsed_time\<rparr>)"

definition power_announce :: "string \<Rightarrow> string \<Rightarrow> bool" where
  "power_announce sensor_id l = (power_pattern sensor_id l \<noteq> None)"

text \<open>
  The outer loop of \<^verbatim>\<open>power\<close>. A match is passed over when the text of its
  \<^verbatim>\<open>event_count\<close> group is \<^verbatim>\<open>'0'\<close>.
\<close>

function power_loop :: "string \<Rightarrow> PowerSensorRecord option \<Rightarrow> string list \<Rightarrow> PowerSensorRecord generator" where
  "power_loop sensor_id result [] = ([], None)"
| "power_loop sensor_id result (l # ls) =
     (case power_pattern sensor_id l of
        None \<Rightarrow> power_loop sensor_id result ls
      | Some (event_count, elapsed) \<Rightarrow>
          if event_count = ''0'' then power_loop sensor_id result ls
          else
            (case find_entry (power_entry sensor_id (int_of_digits event_count)
                                (of_int (int_of_digits elapsed) * (5 / 10000))) result ls of
               (None, ls') \<Rightarrow> raise UnboundLocalError
             | (Some r, ls') \<Rightarrow>
                 yield r (power_loop sensor_id (Some r)
                            (seek_next_copy (power_announce sensor_id) ls'))))"
  by pat_completeness auto
termination
proof (relation "measure (\<lambda>(sensor_id, result, ls). length ls)", goal_cases)
  case (4 sensor_id result l ls x2 event_count elapsed x2a ls' r)
  have "length (seek_next_copy (power_announce sensor_id) ls') \<le> length ls'"
    by (rule length_seek_next_copy)
  moreover have "length ls' \<le> length ls"
    using length_find_entry [of "power_entry sensor_id (int_of_digits event_count)
        (of_int (int_of_digits elapsed) * (5 / 10000))" result ls] 4
    by (metis snd_conv)
  ultimately show ?case by simp
qed auto

subsection \<open>cg\_speed\<close>

definition cg_speed_entry :: "string \<Rightarrow> rat \<Rightarrow> int \<Rightarrow> int \<Rightarrow> string \<Rightarrow> SpeedSensorRecord option" where
  "cg_speed_entry sensor_id circumference meas_time rev_count l =
     (case cg_next_pattern sensor_id l of
        None \<Rightarrow> None
      | Some (ts, v) \<Rightarrow>
          Some \<lparr>s_timestamp = float_of_decimal ts, s_value = float_of_decimal v,
                s_elapsed_time = round6 (of_int meas_time / 1024),
                s_count = rev_count, s_circumference = circumference\<rparr>)"

text \<open>
  The outer loop of \<^verbatim>\<open>cg_speed\<close>. Every round starts from \<^verbatim>\<open>result = None\<close>; when the
  inner loop leaves it \<^verbatim>\<open>None\<close> the generator ends.
\<close>

function cg_speed_loop :: "string \<Rightarrow> rat \<Rightarrow> string list \<Rightarrow> SpeedSensorRecord generator" where
  "cg_speed_loop sensor_id circumference [] = ([], None)"
| "cg_speed_loop sensor_id circumference (l # ls) =
     (case speed_pattern sensor_id l of
        None \<Rightarrow> cg_speed_loop sensor_id circumference ls
      | Some (ts, timer, cnt) \<Rightarrow>
          if int_of_digits timer = 0 then cg_speed_loop sensor_id circumference ls
          else
            (case find_latest (speed_announce sensor_id)
                    (cg_speed_entry sensor_id circumference (int_of_digits timer) (int_of_digits cnt))
                    None ls of
               (None, ls') \<Rightarrow> ([], None)
             | (Some r, ls') \<Rightarrow> yield r (cg_speed_loop sensor_id circumference ls')))"
  by pat_completeness auto
termination
proof (relation "measure (\<lambda>(sensor_id, circumference, ls). length ls)", goal_cases)
  case (4 sensor_id circumference l ls x2 ts y timer cnt x2a ls' r)
  have "length ls' \<le> length ls"
    using length_find_latest [of "speed_announce sensor_id"
        "cg_speed_entry sensor_id circumference (int_of_digits timer) (int_of_digits cnt)" None ls] 4
    by (metis snd_conv)
  then show ?case by simp
qed auto

section \<open>settings\<close>

text \<open>
  A value of the \<^verbatim>\<open>settings\<close> dictionary: the text \<^verbatim>\<open>m.group('value')\<close>, or the tuple
  \<^verbatim>\<open>(value, param1, param2)\<close>.
\<close>

datatype setting = Str string | Tuple3 string string string

definition lower_char :: "char \<Rightarrow> char" where
  "lower_char c =
     (case map_of (zip ''ABCDEFGHIJKLMNOPQRSTUVWXYZ'' ''abcdefghijklmnopqrstuvwxyz'') c of
        None \<Rightarrow> c
      | Some d \<Rightarrow> d)"

definition lower :: "string \<Rightarrow> string" where
  "lower s = map lower_char s"

text \<open>
  \<^verbatim>\<open>(?P<value>[^\t]+)\n$\<close> at the end of a pattern: the text up to the end of the line has no
  tab, ends with a newline and has something before it, which is the group.
\<close>

definition last_field :: "string \<Rightarrow> string option" where
  "last_field s =
     (if s \<noteq> [] \<and> last s = NL \<and> butlast s \<noteq> [] \<and> TAB \<notin> set s then Some (butlast s) else None)"

definition date_label :: "string \<Rightarrow> (string \<times> string) option" where
  "date_label s =
     (case lit ''Start Date'' s of
        Some r \<Rightarrow> Some (''Start Date'', r)
      | None \<Rightarrow>
          (case lit ''Start Time'' s of
             Some r \<Rightarrow> Some (''Start Time'', r)
           | None \<Rightarrow>
               (case lit ''Run Number'' s of
                  Some r \<Rightarrow> Some (''Run Number'', r)
                | None \<Rightarrow> None)))"

text \<open>
  \<^verbatim>\<open>^#\t\t(?P<label>Start Date|Start Time|Run Number):?\t(?P<value>[^\t]+)\n$\<close> and the
  assignment \<^verbatim>\<open>data[m.group('label').lower()] = m.group('value')\<close>: the key and the value.
\<close>

definition date_setting :: "string \<Rightarrow> (string \<times> setting) option" where
  "date_setting l = do {
     r \<leftarrow> lit [CHR ''#'', TAB, TAB] l;
     (label, r) \<leftarrow> date_label r;
     r \<leftarrow> lit [TAB] (case lit '':'' r of None \<Rightarrow> r | Some r' \<Rightarrow> r');
     v \<leftarrow> last_field r;
     Some (lower label, Str v) }"

text \<open>
  \<^verbatim>\<open>^#\t\t(?P<label>[A-Z_]+)\t(?P<value>[^\t]+)(?:\t(?P<param1>[^\t]+)\t(?P<param2>[^\t]+))?\n$\<close>
  and the assignment that follows it: a tuple when \<^verbatim>\<open>param1\<close> took part in the match.
\<close>

definition device_setting :: "string \<Rightarrow> (string \<times> setting) option" where
  "device_setting l = do {
     r \<leftarrow> lit [CHR ''#'', TAB, TAB] l;
     (label, r) \<leftarrow> many1 upper_or_underscore r;
     r \<leftarrow> lit [TAB] r;
     (v, r1) \<leftarrow> many1 (\<lambda>c. c \<noteq> TAB) r;
     if r1 = [] then do { v \<leftarrow> last_field v; Some (lower label, Str v) }
     else do {
       r \<leftarrow> lit [TAB] r1;
       (p1, r) \<leftarrow> many1 (\<lambda>c. c \<noteq> TAB) r;
       r \<leftarrow> lit [TAB] r;
       p2 \<leftarrow> last_field r;
       Some (lower label, Tuple3 v p1 p2) } }"

text \<open>
  The first and the third loop of \<^verbatim>\<open>settings\<close>: they read up to and including the first
  line that starts with the marker, or to the end of the file.
\<close>

fun seek_marker :: "string \<Rightarrow> string list \<Rightarrow> string list" where
  "seek_marker marker [] = []"
| "seek_marker marker (l # ls) =
     (if lit marker l \<noteq> None then ls else seek_marker marker ls)"

text \<open>
  The second and the fourth loop: they read up to and including the first line that starts
  with \<^verbatim>\<open>###\<close>, or to the end of the file, and store the key and value of every line that
  matches; a line that does not match is passed over.
\<close>

fun read_section :: "(string \<Rightarrow> (string \<times> setting) option) \<Rightarrow> (string \<rightharpoonup> setting) \<Rightarrow> string list \<Rightarrow> (string \<rightharpoonup> setting) \<times> string list" where
  "read_section entry data [] = (data, [])"
| "read_section entry data (l # ls) =
     (if lit ''###'' l \<noteq> None then (data, ls)
      else (case entry l of
              None \<Rightarrow> read_section entry data ls
            | Some (k, v) \<Rightarrow> read_section entry (data(k \<mapsto> v)) ls))"

definition settings :: "string list \<Rightarrow> (string \<rightharpoonup> setting)" where
  "settings f =
     (let ls1 = seek_marker ([CHR ''#'', TAB] @ ''Time and Date'') f;
          (data1, ls2) = read_section date_setting Map.empty ls1;
          ls3 = seek_marker ([CHR ''#'', TAB] @ ''Rider and Device Data'') ls2;
          (data2, ls4) = read_section device_setting data1 ls3
      in data2)"

section \<open>The extractors on a file\<close>

text \<open>
  \<^verbatim>\<open>x[i]\<close> on a value of the dictionary: a character of a text, a component of a tuple, or
  \<^verbatim>\<open>IndexError\<close>.
\<close>

fun subscript :: "setting \<Rightarrow> nat \<Rightarrow> error + string" where
  "subscript (Str s) i = (if i < length s then Inr [s ! i] else Inl IndexError)"
| "subscript (Tuple3 a b c) i =
     (if i = 0 then Inr a else if i = 1 then Inr b else if i = 2 then Inr c else Inl IndexError)"

text \<open>\<^verbatim>\<open>s.split('_')\<close>.\<close>

fun split_on :: "char \<Rightarrow> string \<Rightarrow> string list" where
  "split_on c [] = [[]]"
| "split_on c (x # xs) =
     (if x = c then [] # split_on c xs
      else (case split_on c xs of
              [] \<Rightarrow> [[x]]
            | y # ys \<Rightarrow> (x # y) # ys))"

text \<open>
  \<^verbatim>\<open>float(s)\<close> and \<^verbatim>\<open>int(s)\<close> on the texts of a settings line, for the plain spellings: digits
  with an optional fraction, and digits with an optional sign. The other spellings Python
  reads as numbers (exponents, \<^verbatim>\<open>inf\<close>, \<^verbatim>\<open>nan\<close>, blanks, underscores) are not numbers here.
\<close>

definition py_float :: "string \<Rightarrow> rat option" where
  "py_float s =
     (case decimal s of
        Some (t, []) \<Rightarrow> Some (float_of_decimal t)
      | _ \<Rightarrow>
          (case many1 digit s of
             Some (t, []) \<Rightarrow> Some (of_int (int_of_digits t))
           | _ \<Rightarrow> None))"

definition py_int :: "string \<Rightarrow> int option" where
  "py_int s =
     (case s of
        [] \<Rightarrow> None
      | c # t \<Rightarrow>
          if c = CHR ''-'' \<and> t \<noteq> [] \<and> list_all digit t then Some (- int_of_digits t)
          else if c = CHR ''+'' \<and> t \<noteq> [] \<and> list_all digit t then Some (int_of_digits t)
          else if list_all digit s then Some (int_of_digits s)
          else None)"

text \<open>
  \<^verbatim>\<open>speed\<close>, \<^verbatim>\<open>power\<close> and \<^verbatim>\<open>cg_speed\<close> run to their end on a file: the settings are read
  first, then the file is scanned from its first line.
\<close>

definition speed :: "string list \<Rightarrow> SpeedSensorRecord generator" where
  "speed f =
     (case settings f ''speed'' of
        None \<Rightarrow> raise KeyError
      | Some s \<Rightarrow>
          (case subscript s 0 of
             Inl e \<Rightarrow> raise e
           | Inr a \<Rightarrow>
               (case split_on (CHR ''_'') a of
                  [u, sensor_id] \<Rightarrow>
                    (case subscript s 1 of
                       Inl e \<Rightarrow> raise e
                     | Inr b \<Rightarrow>
                         (case py_float b of
                            None \<Rightarrow> raise ValueError
                          | Some circumference \<Rightarrow> speed_loop sensor_id circumference None f))
                | _ \<Rightarrow> raise ValueError)))"

definition power :: "string list \<Rightarrow> PowerSensorRecord generator" where
  "power f =
     (case settings f ''power'' of
        None \<Rightarrow> raise KeyError
      | Some s \<Rightarrow>
          (case subscript s 0 of
             Inl e \<Rightarrow> raise e
           | Inr a \<Rightarrow>
               (case split_on (CHR ''_'') a of
                  [u, sensor_id] \<Rightarrow>
                    (case subscript s 1 of
                       Inl e \<Rightarrow> raise e
                     | Inr b \<Rightarrow>
                         (case py_int b of
                            None \<Rightarrow> raise ValueError
                          | Some offset \<Rightarrow> power_loop sensor_id None f))
                | _ \<Rightarrow> raise ValueError)))"

definition cg_speed :: "string list \<Rightarrow> SpeedSensorRecord generator" where
  "cg_speed f =
     (case settings f ''speed'' of
        None \<Rightarrow> raise KeyError
      | Some s \<Rightarrow>
          (case subscript s 0 of
             Inl e \<Rightarrow> raise e
           | Inr a \<Rightarrow>
               (case split_on (CHR ''_'') a of
                  [u, sensor_id] \<Rightarrow>
                    (case subscript s 1 of
                       Inl e \<Rightarrow> raise e
                     | Inr b \<Rightarrow>
                         (case py_float b of
                            None \<Rightarrow> raise ValueError
                          | Some circumference \<Rightarrow> cg_speed_loop sensor_id circumference f))
                | _ \<Rightarrow> raise ValueError)))"

text \<open>
  A run of an extractor on a file is an exception raised before the scan, with nothing
  yielded, or the run of its outer loop from the first line of the file (with \<^verbatim>\<open>result\<close>
  unbound, for \<^verbatim>\<open>speed\<close> and \<^verbatim>\<open>power\<close>), for the sensor id and the circumference that the
  settings give. What is proved of the loops for every sensor id and circumference holds of
  the extractors.
\<close>

lemma speed_cases:
  "(\<exists>e. speed f = raise e) \<or> (\<exists>sensor_id c. speed f = speed_loop sensor_id c None f)"
  by (auto simp: speed_def split: option.splits sum.splits list.splits)

lemma power_cases:
  "(\<exists>e. power f = raise e) \<or> (\<exists>sensor_id. power f = power_loop sensor_id None f)"
  by (auto simp: power_def split: option.splits sum.splits list.splits)

lemma cg_speed_cases:
  "(\<exists>e. cg_speed f = raise e) \<or> (\<exists>sensor_id c. cg_speed f = cg_speed_loop sensor_id c f)"
  by (auto simp: cg_speed_def split: option.splits sum.splits list.splits)

subsection \<open>main\<close>




subsection \<open>Writing a line\<close>

text \<open>The fields of a line joined by tabs, and the line terminator.\<close>

fun join_tabs :: "string list \<Rightarrow> string" where
  "join_tabs [] = []"
| "join_tabs [x] = x"
| "join_tabs (x # y # ys) = x @ TAB # join_tabs (y # ys)"

definition line :: "string list \<Rightarrow> string" where
  "line fs = join_tabs fs @ [NL]"

section \<open>Properties of the inner loops\<close>


lemma find_entry_eof:
  "\<forall>l\<in>set ls. entry l = None \<Longrightarrow> find_entry entry result ls = (result, [])"
  by (induction ls) auto



lemma seek_next_copy_found:
  "\<forall>l\<in>set copies. \<not> p l \<Longrightarrow> p t \<Longrightarrow> seek_next_copy p (copies @ t # post) = post"
  by (induction copies) auto

lemma seek_next_copy_eof: "\<forall>l\<in>set ls. \<not> p l \<Longrightarrow> seek_next_copy p ls = []"
  by (induction ls) auto

section \<open>speed and power, one round of the outer loop\<close>







lemma snd_yield: "snd (yield r g) = snd g"
  by (simp add: yield_def)

















section \<open>The order of the timestamps\<close>
















section \<open>Properties of settings\<close>

lemma seek_marker_none: "\<forall>l\<in>set ls. lit marker l = None \<Longrightarrow> seek_marker marker ls = []"
  by (induction ls) auto

lemma set_seek_marker: "set (seek_marker marker ls) \<subseteq> set ls"
  by (induction ls) auto

lemma set_read_section: "set (snd (read_section entry data ls)) \<subseteq> set ls"
  by (induction ls arbitrary: data) (auto split: option.splits)

lemma settings_no_time_marker:
  assumes "\<forall>l\<in>set f. lit ([CHR ''#'', TAB] @ ''Time and Date'') l = None"
  shows "settings f = Map.empty"
  using seek_marker_none [OF assms] by (simp add: settings_def)

lemma settings_no_rider_marker:
  assumes "\<forall>l\<in>set f. lit ([CHR ''#'', TAB] @ ''Rider and Device Data'') l = None"
  shows "settings f =
         fst (read_section date_setting Map.empty
                (seek_marker ([CHR ''#'', TAB] @ ''Time and Date'') f))"
proof -
  let ?ls1 = "seek_marker ([CHR ''#'', TAB] @ ''Time and Date'') f"
  obtain data1 ls2 where r: "read_section date_setting Map.empty ?ls1 = (data1, ls2)"
    by fastforce
  have "set ls2 \<subseteq> set f"
    using set_read_section [of date_setting Map.empty ?ls1] set_seek_marker [of _ f] r by auto
  with assms have "\<forall>l\<in>set ls2. lit ([CHR ''#'', TAB] @ ''Rider and Device Data'') l = None"
    by blast
  from seek_marker_none [OF this] r show ?thesis by (simp add: settings_def)
qed

section \<open>Header lines and the scan of power\<close>








section \<open>Example lines and files\<close>

text \<open>
  A header with the settings of a speed sensor \<^verbatim>\<open>BSPD_1234\<close> (circumference 2.105) and of a
  power sensor \<^verbatim>\<open>BPWR_77\<close> (offset 512), and the lines of the two sensors.
\<close>

definition header :: "string list" where
  "header =
     [line [''#'', ''Time and Date''],
      line [''#'', [], ''Start Date'', ''2023-11-14''],
      line [''###''],
      line [''#'', ''Rider and Device Data''],
      line [''#'', [], ''SPEED'', ''BSPD_1234'', ''2.105'', ''0''],
      line [''#'', [], ''POWER'', ''BPWR_77'', ''512'', ''0''],
      line [''###'']]"

definition speed_line :: "string \<Rightarrow> string \<Rightarrow> string \<Rightarrow> string" where
  "speed_line ts timer cnt = line [''BSPD_1234'', ts, ''S'', ''0'', timer, cnt, [], []]"

definition SPEED_line :: "string \<Rightarrow> string \<Rightarrow> string" where
  "SPEED_line ts v = line [''SPEED'', ''BSPD_1234'', ts, v]"

definition CG_SPEED_line :: "string \<Rightarrow> string \<Rightarrow> string" where
  "CG_SPEED_line ts v = line [''CG_SPEED_BSPD_1234'', ts, v]"

definition power_line :: "string \<Rightarrow> string \<Rightarrow> string \<Rightarrow> string" where
  "power_line ts event_count elapsed = line [''BPWR_77'', ts, ''S'', event_count, elapsed, ''100'', ''200'', []]"

definition POWER_line :: "string \<Rightarrow> string \<Rightarrow> string" where
  "POWER_line ts v = line [''POWER'', ''BPWR_77'', ts, v]"

lemmas example_defs =
  header_def speed_line_def SPEED_line_def CG_SPEED_line_def power_line_def POWER_line_def



section \<open>Evaluating the extractors on given lines\<close>

text \<open>The definitions that the simplifier unfolds to run a matcher or an extractor on given lines.\<close>

lemmas matcher_defs =
  line_def many1_def lit_def decimal_def digit_def upper_or_digit_def upper_or_underscore_def
  speed_pattern_def speed_next_pattern_def cg_next_pattern_def power_pattern_def
  power_next_pattern_def int_of_digits_def digit_val_def float_of_decimal_def

lemmas extractor_defs =
  round6_def speed_entry_def speed_announce_def power_entry_def power_announce_def
  cg_speed_entry_def yield_def raise_def

lemmas settings_defs =
  settings_def date_setting_def device_setting_def date_label_def last_field_def lower_def
  lower_char_def py_float_def py_int_def speed_def power_def cg_speed_def

section \<open>The claims\<close>

subsection \<open>C8: the end-to-end scenario of the speed extractor\<close>

text \<open>
  A file with the two header sections, one speed announcement (timer 2048, count 50), three
  equal \<^verbatim>\<open>SPEED\<close> lines and a new announcement. The circumference 2.105 is the second field
  of the \<^verbatim>\<open>SPEED\<close> setting.
\<close>

definition scenario_file :: "string list" where
  "scenario_file =
     [line [''#'', ''Time and Date''],
      line [''#'', [], ''Start Date'', ''2023-11-14''],
      line [''###''],
      line [''#'', ''Rider and Device Data''],
      line [''#'', [], ''SPEED'', ''BSPD_1234'', ''2.105'', ''0''],
      line [''###''],
      line [''BSPD_1234'', ''1700000000.25'', ''S'', ''0'', ''2048'', ''50'', [], []],
      line [''SPEED'', ''BSPD_1234'', ''1700000000.5'', ''9.876500''],
      line [''SPEED'', ''BSPD_1234'', ''1700000000.5'', ''9.876500''],
      line [''SPEED'', ''BSPD_1234'', ''1700000000.5'', ''9.876500''],
      line [''BSPD_1234'', ''1700000002.25'', ''S'', ''0'', ''1024'', ''51'', [], []]]"

text \<open>
  C8. On that file \<^verbatim>\<open>speed\<close> yields exactly one record and ends without an exception: the
  record has timestamp 1700000000.5, value 9.8765, elapsed time 2, count 50 and
  circumference 2.105.
\<close>

theorem speed_scenario:
  "speed scenario_file =
     ([\<lparr>s_timestamp = 17000000005 / 10, s_value = 98765 / 10000, s_elapsed_time = 2,
        s_count = 50, s_circumference = 2105 / 1000\<rparr>], None)"
  unfolding scenario_file_def by (simp add: matcher_defs extractor_defs settings_defs)

subsection \<open>C1: one record for an announcement and its broadcast line\<close>




subsection \<open>C2: where the fields of a record come from\<close>




text \<open>
  The end of the file in \<^verbatim>\<open>speed\<close> and \<^verbatim>\<open>power\<close>, which the amended claim leaves out. The
  statement \<^verbatim>\<open>yield result\<close> is reached also when the file ended before a broadcast line was
  found: with no record built before, reading \<^verbatim>\<open>result\<close> raises \<^verbatim>\<open>UnboundLocalError\<close>; with
  one, the record of the interval before is yielded a second time. (\<^verbatim>\<open>cg_speed\<close> resets
  \<^verbatim>\<open>result\<close> in every round and stops when it is \<^verbatim>\<open>None\<close>.)
\<close>

lemma speed_eof_unbound:
  "speed (header @ [speed_line ''10.0'' ''2048'' ''50'']) = ([], Some UnboundLocalError)"
  by (simp add: example_defs matcher_defs extractor_defs settings_defs)

lemma speed_eof_stale:
  "speed (header @ [speed_line ''10.0'' ''2048'' ''50'', SPEED_line ''10.5'' ''9.0'',
                    speed_line ''10.7'' ''0'' ''50'', speed_line ''11.0'' ''1024'' ''51'']) =
     ([\<lparr>s_timestamp = 105 / 10, s_value = 9, s_elapsed_time = 2, s_count = 50,
        s_circumference = 2105 / 1000\<rparr>,
       \<lparr>s_timestamp = 105 / 10, s_value = 9, s_elapsed_time = 2, s_count = 50,
        s_circumference = 2105 / 1000\<rparr>], None)"
  by (simp add: example_defs matcher_defs extractor_defs settings_defs)

lemma power_eof_unbound:
  "power (header @ [power_line ''10.0'' ''3'' ''4000'']) = ([], Some UnboundLocalError)"
  by (simp add: example_defs matcher_defs extractor_defs settings_defs)

lemma cg_speed_eof:
  "cg_speed (header @ [speed_line ''10.0'' ''2048'' ''50'']) = ([], None)"
  by (simp add: example_defs matcher_defs extractor_defs settings_defs)

subsection \<open>C3: the announcement line that ends an interval of cg\_speed\<close>




subsection \<open>C5: cg\_speed keeps the last broadcast value\<close>



subsection \<open>C6: announcements that open no interval\<close>



subsection \<open>C7: the elapsed time of a record\<close>



subsection \<open>C9: the order of the timestamps\<close>




subsection \<open>C4: settings on a file without its sections\<close>

text \<open>
  C4, as amended. \<^verbatim>\<open>settings\<close> returns a mapping for every file and raises nothing, also
  when a section marker is never found: without a line starting with the
  \<^verbatim>\<open>Time and Date\<close> marker the mapping is empty, and without a line starting with the
  \<^verbatim>\<open>Rider and Device Data\<close> marker it holds the entries of the first section only. Inside a
  section a line that neither starts with \<^verbatim>\<open>###\<close> nor has the shape of an entry is passed
  over.
\<close>

theorem settings_never_fails:
  "((\<forall>l\<in>set f. lit ([CHR ''#'', TAB] @ ''Time and Date'') l = None) \<longrightarrow>
      settings f = Map.empty) \<and>
   ((\<forall>l\<in>set f. lit ([CHR ''#'', TAB] @ ''Rider and Device Data'') l = None) \<longrightarrow>
      settings f = fst (read_section date_setting Map.empty
                          (seek_marker ([CHR ''#'', TAB] @ ''Time and Date'') f))) \<and>
   (lit ''###'' l = None \<and> entry l = None \<longrightarrow>
      read_section entry data (l # ls) = read_section entry data ls)"
  using settings_no_time_marker [of f] settings_no_rider_marker [of f] by simp

text \<open>
  The theorem on a file with the first marker only, and on a file with no marker: the first
  has the entry of its first section and no \<^verbatim>\<open>speed\<close> key, the second is the empty mapping.
\<close>

theorem settings_never_fails_witness:
  "lit ([CHR ''#'', TAB] @ ''Rider and Device Data'') (line [''#'', ''Time and Date'']) = None \<and>
   lit ([CHR ''#'', TAB] @ ''Rider and Device Data'') (line [''#'', [], ''Run Number'', ''7'']) = None \<and>
   lit ([CHR ''#'', TAB] @ ''Rider and Device Data'') (line [''BSPD_1234'', ''garbage'']) = None \<and>
   settings [line [''#'', ''Time and Date''], line [''#'', [], ''Run Number'', ''7''],
             line [''BSPD_1234'', ''garbage'']] ''run number'' = Some (Str ''7'') \<and>
   settings [line [''#'', ''Time and Date''], line [''#'', [], ''Run Number'', ''7''],
             line [''BSPD_1234'', ''garbage'']] ''speed'' = None \<and>
   settings [line [''BSPD_1234'', ''garbage'']] = Map.empty"
  using settings_never_fails [where f = "[line [''#'', ''Time and Date''],
      line [''#'', [], ''Run Number'', ''7''], line [''BSPD_1234'', ''garbage'']]"]
    settings_never_fails [where f = "[line [''BSPD_1234'', ''garbage'']]"]
  by (simp add: matcher_defs settings_defs)

text \<open>
  The claim as it is written fails: the source has no \<^verbatim>\<open>MissingSectionError\<close>. On a file
  with neither marker \<^verbatim>\<open>settings\<close> returns the empty mapping, and the first exception is
  the \<^verbatim>\<open>KeyError\<close> of the lookup \<^verbatim>\<open>settings['speed']\<close> in \<^verbatim>\<open>speed\<close>.
\<close>

theorem settings_without_markers:
  "settings [line [''BSPD_1234'', ''1700000000.25'', ''S'', ''0'', ''2048'', ''50'', [], []]] = Map.empty \<and>
   speed [line [''BSPD_1234'', ''1700000000.25'', ''S'', ''0'', ''2048'', ''50'', [], []]] =
     ([], Some KeyError)"
  by (simp add: matcher_defs extractor_defs settings_defs)

subsection \<open>C10: the offset of the power meter\<close>




end
